theory Spec2Isabelle
  imports Main "HOL-Library.Sublist"
begin

section \<open>Values thrown by the JavaScript code\<close>

text \<open>
  Every \<^verbatim>\<open>throw\<close> of the sources throws an \<^verbatim>\<open>Error\<close> object, and the
  runtime itself throws \<^verbatim>\<open>TypeError\<close> and \<^verbatim>\<open>SyntaxError\<close>. An
  \<^verbatim>\<open>async\<close> function that throws is a rejected promise; the model returns
  \<open>Inl\<close> of the thrown error, and \<open>Inr\<close> of the value otherwise.
\<close>

datatype js_error = Error string | TypeError string | SyntaxError string

fun error_message :: "js_error \<Rightarrow> string" where
  "error_message (Error m) = m"
| "error_message (TypeError m) = m"
| "error_message (SyntaxError m) = m"

section \<open>The agent (the stateful \<^verbatim>\<open>runAgent\<close>)\<close>

record tool_call =
  call_name :: string
  call_args :: string

text \<open>
  The content of a response is a text, or a list of blocks: the client library gives
  a response that requests tool calls a list of function-call blocks, not a text.
\<close>

datatype content_block = TextBlock string | FunctionCallBlock tool_call

datatype message_content = Text string | Blocks "content_block list"

datatype base_message = HumanMessage string | AIMessage message_content

record tool_decl =
  name :: string
  description :: string

record chat_model =
  model_id :: string
  bound_tools :: "tool_decl list"

text \<open>What one \<^verbatim>\<open>invoke\<close> sends to the hosted completion endpoint.\<close>

record completion_request =
  req_model :: string
  req_messages :: "base_message list"
  req_tools :: "tool_decl list"

record ai_response =
  content :: message_content
  tool_calls :: "tool_call list"

text \<open>
  The endpoint is outside the repository. It is a parameter: given how many requests
  it has served before and the request, it fails or answers. The index lets it answer
  the same request differently at different times.
\<close>

type_synonym endpoint = "nat \<Rightarrow> completion_request \<Rightarrow> js_error + ai_response"

definition model :: chat_model where
  "model = \<lparr>model_id = ''gemini-2.5-flash'', bound_tools = []\<rparr>"

definition calculator_decl :: tool_decl where
  "calculator_decl =
     \<lparr>name = ''calculator'',
      description = ''Solve math expressions like 25*17 or 10/2+5''\<rparr>"

definition timeTool :: tool_decl where
  "timeTool = \<lparr>name = ''time'', description = ''  Get current Date and time''\<rparr>"

definition echoTool :: tool_decl where
  "echoTool = \<lparr>name = ''echo'', description = ''Repeat the given text''\<rparr>"

definition tools :: "tool_decl list" where
  "tools = [calculator_decl, timeTool, echoTool]"

text \<open>\<^verbatim>\<open>bindTools\<close> returns a new runnable; the model it is called on is unchanged.\<close>

definition bindTools :: "chat_model \<Rightarrow> tool_decl list \<Rightarrow> chat_model" where
  "bindTools m ts = m\<lparr>bound_tools := ts\<rparr>"

definition llmWithTools :: chat_model where
  "llmWithTools = bindTools model tools"

definition invoke_request :: "chat_model \<Rightarrow> base_message list \<Rightarrow> completion_request" where
  "invoke_request m msgs =
     \<lparr>req_model = model_id m, req_messages = msgs, req_tools = bound_tools m\<rparr>"

text \<open>
  The module state: the \<^verbatim>\<open>history\<close> array, and the requests sent to the
  endpoint so far (the trace of the \<^verbatim>\<open>invoke\<close> effect).
\<close>

record agent_state =
  history :: "base_message list"
  asked :: "completion_request list"

definition initial_state :: agent_state where
  "initial_state = \<lparr>history = [], asked = []\<rparr>"

text \<open>
  \<^verbatim>\<open>
  history.push(new HumanMessage(text));
  const res = await model.invoke(history);
  const reply = res.content as string;
  history.push(new AIMessage(reply));
  return reply;
  \<close>
  The cast \<^verbatim>\<open>as string\<close> checks nothing: the reply is the content as it came.
  This is a call that runs from its first line to its last with no other call in
  between.
\<close>

definition runAgent :: "endpoint \<Rightarrow> string \<Rightarrow> agent_state \<Rightarrow> (js_error + message_content) \<times> agent_state" where
  "runAgent ep txt s =
     (let h1 = history s @ [HumanMessage txt];
          req = invoke_request model h1;
          s1 = s\<lparr>history := h1, asked := asked s @ [req]\<rparr>
      in case ep (length (asked s)) req of
           Inl e \<Rightarrow> (Inl e, s1)
         | Inr res \<Rightarrow>
             (let reply = content res
              in (Inr reply, s1\<lparr>history := h1 @ [AIMessage reply]\<rparr>)))"

subsection \<open>Calls that overlap\<close>

text \<open>
  \<^verbatim>\<open>runAgent\<close> is \<^verbatim>\<open>async\<close> and the history is one array shared by all
  calls, with no lock. A call runs up to its \<^verbatim>\<open>await\<close> (it pushes the Human
  turn and sends the request, which holds the history as it is then), gives up
  control, and runs to its end when the response arrives. Between the two parts other
  calls may start or finish.
\<close>

definition runAgent_start :: "string \<Rightarrow> agent_state \<Rightarrow> (nat \<times> completion_request) \<times> agent_state" where
  "runAgent_start txt s =
     (let h1 = history s @ [HumanMessage txt];
          req = invoke_request model h1
      in ((length (asked s), req), s\<lparr>history := h1, asked := asked s @ [req]\<rparr>))"

definition runAgent_resume :: "js_error + ai_response \<Rightarrow> agent_state \<Rightarrow> (js_error + message_content) \<times> agent_state" where
  "runAgent_resume answer s =
     (case answer of
        Inl e \<Rightarrow> (Inl e, s)
      | Inr res \<Rightarrow>
          (let reply = content res
           in (Inr reply, s\<lparr>history := history s @ [AIMessage reply]\<rparr>)))"

text \<open>
  The process: the module state, the calls waiting for their response (each with the
  index and the request it sent), and what the finished calls returned, in the order
  in which they finished. \<open>Call txt\<close> is the arrival of a call; \<open>Answer i\<close> is
  the arrival of the response for the \<open>i\<close>-th waiting call.
\<close>

record process_state =
  agent_of :: agent_state
  awaiting :: "(nat \<times> completion_request) list"
  returned :: "(js_error + message_content) list"

datatype event = Call string | Answer nat

definition initial_process :: process_state where
  "initial_process = \<lparr>agent_of = initial_state, awaiting = [], returned = []\<rparr>"

fun step :: "endpoint \<Rightarrow> process_state \<Rightarrow> event \<Rightarrow> process_state" where
  "step ep p (Call txt) =
     (case runAgent_start txt (agent_of p) of
        (ticket, s1) \<Rightarrow> p\<lparr>agent_of := s1, awaiting := awaiting p @ [ticket]\<rparr>)"
| "step ep p (Answer i) =
     (if i < length (awaiting p) then
        (case awaiting p ! i of
           (n, req) \<Rightarrow>
             (case runAgent_resume (ep n req) (agent_of p) of
                (r, s1) \<Rightarrow>
                  p\<lparr>agent_of := s1,
                    awaiting := take i (awaiting p) @ drop (Suc i) (awaiting p),
                    returned := returned p @ [r]\<rparr>))
      else p)"

definition run_events :: "endpoint \<Rightarrow> event list \<Rightarrow> process_state \<Rightarrow> process_state" where
  "run_events ep evs p = foldl (step ep) p evs"

text \<open>Calls that do not overlap: each response arrives before the next call.\<close>

fun serial :: "string list \<Rightarrow> event list" where
  "serial [] = []"
| "serial (t # ts) = Call t # Answer 0 # serial ts"

text \<open>The turns a call leaves in the history: its input, then its reply if it has one.\<close>

fun turns :: "string list \<Rightarrow> (js_error + message_content) list \<Rightarrow> base_message list" where
  "turns (t # ts) (Inr a # rs) = HumanMessage t # AIMessage a # turns ts rs"
| "turns (t # ts) (Inl e # rs) = HumanMessage t # turns ts rs"
| "turns _ _ = []"

text \<open>The inputs of the Human turns, the contents of the Assistant turns, in order.\<close>

fun human_texts :: "base_message list \<Rightarrow> string list" where
  "human_texts [] = []"
| "human_texts (HumanMessage t # ms) = t # human_texts ms"
| "human_texts (AIMessage c # ms) = human_texts ms"

fun assistant_contents :: "base_message list \<Rightarrow> message_content list" where
  "assistant_contents [] = []"
| "assistant_contents (HumanMessage t # ms) = assistant_contents ms"
| "assistant_contents (AIMessage c # ms) = c # assistant_contents ms"

fun calls_of :: "event list \<Rightarrow> string list" where
  "calls_of [] = []"
| "calls_of (Call t # evs) = t # calls_of evs"
| "calls_of (Answer i # evs) = calls_of evs"

fun completed :: "(js_error + message_content) list \<Rightarrow> message_content list" where
  "completed [] = []"
| "completed (Inr c # rs) = c # completed rs"
| "completed (Inl e # rs) = completed rs"

text \<open>Endpoints used to run the model on concrete inputs.\<close>

definition answering :: "string \<Rightarrow> endpoint" where
  "answering reply = (\<lambda>n req. Inr \<lparr>content = Text reply, tool_calls = []\<rparr>)"

definition replying :: "string list \<Rightarrow> endpoint" where
  "replying replies =
     (\<lambda>n req. Inr \<lparr>content = Text (if n < length replies then replies ! n else []),
                       tool_calls = []\<rparr>)"

definition always_tool_call :: endpoint where
  "always_tool_call =
     (\<lambda>n req.
        Inr \<lparr>content =
               Blocks [FunctionCallBlock \<lparr>call_name = ''calculator'', call_args = ''25*17''\<rparr>],
             tool_calls = [\<lparr>call_name = ''calculator'', call_args = ''25*17''\<rparr>]\<rparr>)"

definition failing_endpoint :: endpoint where
  "failing_endpoint = (\<lambda>n req. Inl (Error ''fetch failed''))"

section \<open>The Slack adapter\<close>

text \<open>
  The handlers of \<^verbatim>\<open>app_mention\<close> and \<^verbatim>\<open>message\<close> events. \<^verbatim>\<open>say\<close>
  belongs to the Slack SDK: it is a parameter that delivers a reply or fails. The state
  of the process is the agent's state and the replies delivered so far. An
  \<^verbatim>\<open>app_mention\<close> event always carries a text; in a \<^verbatim>\<open>message\<close> event the
  field may be absent. The \<^verbatim>\<open>console.log\<close> of the message handler is left out.
\<close>

type_synonym say_fn = "message_content \<Rightarrow> js_error + unit"

record slack_event =
  event_text :: "string option"

record bot_state =
  agent :: agent_state
  said :: "message_content list"

definition initial_bot :: bot_state where
  "initial_bot = \<lparr>agent = initial_state, said = []\<rparr>"

text \<open>
  \<^verbatim>\<open>
  const reply = await runAgent(event.text);
  await say(reply);
  \<close>
\<close>

definition app_mention :: "endpoint \<Rightarrow> say_fn \<Rightarrow> string \<Rightarrow> bot_state \<Rightarrow> (js_error + unit) \<times> bot_state" where
  "app_mention ep say txt st =
     (case runAgent ep txt (agent st) of
        (Inl e, a) \<Rightarrow> (Inl e, st\<lparr>agent := a\<rparr>)
      | (Inr reply, a) \<Rightarrow>
          (case say reply of
             Inl e \<Rightarrow> (Inl e, st\<lparr>agent := a\<rparr>)
           | Inr u \<Rightarrow> (Inr (), st\<lparr>agent := a, said := said st @ [reply]\<rparr>)))"

text \<open>
  \<^verbatim>\<open>
  const text = (event as any).text;
  if (!text) return;
  const reply = await runAgent(text);
  await say(reply);
  \<close>
  An absent field and the empty string are the falsy values a text field can hold.
\<close>

definition message_event :: "endpoint \<Rightarrow> say_fn \<Rightarrow> slack_event \<Rightarrow> bot_state \<Rightarrow> (js_error + unit) \<times> bot_state" where
  "message_event ep say ev st =
     (case event_text ev of
        None \<Rightarrow> (Inr (), st)
      | Some txt \<Rightarrow>
          if txt = [] then (Inr (), st)
          else
            (case runAgent ep txt (agent st) of
               (Inl e, a) \<Rightarrow> (Inl e, st\<lparr>agent := a\<rparr>)
             | (Inr reply, a) \<Rightarrow>
                 (case say reply of
                    Inl e \<Rightarrow> (Inl e, st\<lparr>agent := a\<rparr>)
                  | Inr u \<Rightarrow> (Inr (), st\<lparr>agent := a, said := said st @ [reply]\<rparr>))))"

section \<open>The calculator tool\<close>

subsection \<open>The host evaluator\<close>

text \<open>
  The tool calls the runtime's \<^verbatim>\<open>eval\<close> and converts the value to text in a
  template literal. Both belong to the JavaScript host, not to the repository, so the
  host is a parameter: \<open>eval\<close> evaluates a program text and \<open>toString\<close> converts a
  value to text. Each returns (\<open>Some (Inr _)\<close>), throws (\<open>Some (Inl _)\<close>), or never
  hands control back (\<open>None\<close>: an endless loop, an exit of the process).
\<close>

datatype js_number = Fin int | PosInfinity | NegInfinity | NaN

datatype js_value = JNumber js_number | JString string | JUndefined | JObject nat

record js_host =
  eval :: "string \<Rightarrow> (js_error + js_value) option"
  toString :: "js_value \<Rightarrow> (js_error + string) option"

text \<open>
  \<^verbatim>\<open>
  try {
    const result = eval(expression);
    return `Result: ${result}`;
  } catch {
    return "Invalid math expression";
  }
  \<close>
  The inner case is the \<^verbatim>\<open>try\<close> block, the outer one the \<^verbatim>\<open>catch\<close>, which
  catches what is thrown and nothing else.
\<close>

definition calculator :: "js_host \<Rightarrow> string \<Rightarrow> (js_error + string) option" where
  "calculator h expression =
     (case (case eval h expression of
              None \<Rightarrow> None
            | Some (Inl e) \<Rightarrow> Some (Inl e)
            | Some (Inr result) \<Rightarrow>
                (case toString h result of
                   None \<Rightarrow> None
                 | Some (Inl e) \<Rightarrow> Some (Inl e)
                 | Some (Inr s) \<Rightarrow> Some (Inr (''Result: '' @ s)))) of
        None \<Rightarrow> None
      | Some (Inl e) \<Rightarrow> Some (Inr ''Invalid math expression'')
      | Some (Inr t) \<Rightarrow> Some (Inr t))"

subsection \<open>What every JavaScript host does on plain arithmetic\<close>

text \<open>
  A reference for a small fragment of the language, on which every ECMAScript host
  agrees: chains of operands joined by \<open>+ - * /\<close> with no blanks and no parentheses,
  an operand being a decimal integer literal without a leading zero or one of the
  global constants \<^verbatim>\<open>Infinity\<close> and \<^verbatim>\<open>NaN\<close>. Numbers are IEEE doubles in
  JavaScript; the reference answers only where the double arithmetic is exact
  (integers of magnitude at most \<open>2^53\<close>, divisions without remainder, a division by
  zero) and where no negative zero can arise, and leaves everything else unmodelled.
  A chain that ends in an operator is a syntax error in every host, and the loop
  \<^verbatim>\<open>while(true){}\<close> runs for ever in every host.
\<close>

datatype token = TNum string | TId string | TOp char

definition is_digit :: "char \<Rightarrow> bool" where
  "is_digit c = (c \<in> set ''0123456789'')"

definition is_letter :: "char \<Rightarrow> bool" where
  "is_letter c = (c \<in> set ''abcdefghijklmnopqrstuvwxyzABCDEFGHIJKLMNOPQRSTUVWXYZ'')"

definition is_operator :: "char \<Rightarrow> bool" where
  "is_operator c = (c \<in> set ''+-*/'')"

fun lex :: "string \<Rightarrow> token list option" where
  "lex [] = Some []"
| "lex (c # cs) =
     (case lex cs of
        None \<Rightarrow> None
      | Some ts \<Rightarrow>
          if is_digit c then
            Some (case ts of TNum ds # r \<Rightarrow> TNum (c # ds) # r | _ \<Rightarrow> TNum [c] # ts)
          else if is_letter c then
            Some (case ts of TId n # r \<Rightarrow> TId (c # n) # r | _ \<Rightarrow> TId [c] # ts)
          else if is_operator c then Some (TOp c # ts)
          else None)"

definition safe :: "int \<Rightarrow> js_number option" where
  "safe n = (if \<bar>n\<bar> \<le> 2 ^ 53 then Some (Fin n) else None)"

definition nat_of_digits :: "string \<Rightarrow> nat" where
  "nat_of_digits ds = foldl (\<lambda>n c. 10 * n + (of_char c - 48)) 0 ds"

fun operand :: "token \<Rightarrow> js_number option" where
  "operand (TNum ds) =
     (if 1 < length ds \<and> hd ds = CHR ''0'' then None else safe (int (nat_of_digits ds)))"
| "operand (TId n) =
     (if n = ''Infinity'' then Some PosInfinity else if n = ''NaN'' then Some NaN else None)"
| "operand (TOp c) = None"

fun js_binop :: "char \<Rightarrow> js_number \<Rightarrow> js_number \<Rightarrow> js_number option" where
  "js_binop c (Fin a) (Fin b) =
     (if c = CHR ''+'' then safe (a + b)
      else if c = CHR ''-'' then safe (a - b)
      else if c = CHR ''*'' then
        (if a * b = 0 \<and> (a < 0 \<or> b < 0) then None else safe (a * b))
      else if c = CHR ''/'' then
        (if b = 0 then Some (if 0 < a then PosInfinity else if a < 0 then NegInfinity else NaN)
         else if a = 0 \<and> b < 0 then None
         else if b dvd a then safe (a div b)
         else None)
      else None)"
| "js_binop c x y = None"

datatype ref_result = Value js_number | SyntaxErr | Diverges | Unmodelled

text \<open>The sum so far with its pending additive operator, applied to a finished product.\<close>

fun pending :: "(js_number \<times> char) option \<Rightarrow> js_number \<Rightarrow> js_number option" where
  "pending None p = Some p"
| "pending (Some (a, c)) p = js_binop c a p"

fun chain :: "(js_number \<times> char) option \<Rightarrow> js_number \<Rightarrow> token list \<Rightarrow> ref_result" where
  "chain acc p [] = (case pending acc p of None \<Rightarrow> Unmodelled | Some v \<Rightarrow> Value v)"
| "chain acc p [TOp c] = SyntaxErr"
| "chain acc p (TOp c # t # ts) =
     (case operand t of
        None \<Rightarrow> Unmodelled
      | Some v \<Rightarrow>
          if c = CHR ''*'' \<or> c = CHR ''/'' then
            (case js_binop c p v of None \<Rightarrow> Unmodelled | Some q \<Rightarrow> chain acc q ts)
          else
            (case pending acc p of None \<Rightarrow> Unmodelled | Some a \<Rightarrow> chain (Some (a, c)) v ts))"
| "chain acc p ts = Unmodelled"

definition ref_eval :: "string \<Rightarrow> ref_result" where
  "ref_eval s =
     (if s = ''while(true){}'' then Diverges
      else
        (case lex s of
           None \<Rightarrow> Unmodelled
         | Some [] \<Rightarrow> Unmodelled
         | Some (t # ts) \<Rightarrow>
             (case operand t of None \<Rightarrow> Unmodelled | Some v \<Rightarrow> chain None v ts)))"

text \<open>The text of a number: decimal digits for the integers of the fragment.\<close>

fun nat_text :: "nat \<Rightarrow> string" where
  "nat_text n =
     (if n < 10 then [''0123456789'' ! n]
      else nat_text (n div 10) @ [''0123456789'' ! (n mod 10)])"

declare nat_text.simps [simp del]

fun number_text :: "js_number \<Rightarrow> string" where
  "number_text (Fin n) = (if n < 0 then ''-'' @ nat_text (nat (- n)) else nat_text (nat n))"
| "number_text PosInfinity = ''Infinity''"
| "number_text NegInfinity = ''-Infinity''"
| "number_text NaN = ''NaN''"

fun representable :: "js_number \<Rightarrow> bool" where
  "representable (Fin n) = (\<bar>n\<bar> \<le> 2 ^ 53)"
| "representable x = True"

text \<open>A host conforms when it agrees with the reference wherever the reference answers.\<close>

definition conforms :: "js_host \<Rightarrow> bool" where
  "conforms h \<longleftrightarrow>
     (\<forall>s. case ref_eval s of
            Value n \<Rightarrow> eval h s = Some (Inr (JNumber n))
          | SyntaxErr \<Rightarrow> (\<exists>m. eval h s = Some (Inl (SyntaxError m)))
          | Diverges \<Rightarrow> eval h s = None
          | Unmodelled \<Rightarrow> True) \<and>
     (\<forall>n. representable n \<longrightarrow> toString h (JNumber n) = Some (Inr (number_text n)))"

text \<open>
  A conforming host to run the model on; what it does outside the fragment (it
  throws) is arbitrary.
\<close>

definition reference_host :: js_host where
  "reference_host =
     \<lparr>eval = (\<lambda>s. case ref_eval s of
                    Value n \<Rightarrow> Some (Inr (JNumber n))
                  | SyntaxErr \<Rightarrow> Some (Inl (SyntaxError ''Unexpected end of input''))
                  | Diverges \<Rightarrow> None
                  | Unmodelled \<Rightarrow> Some (Inl (Error ''outside the fragment''))),
      toString = (\<lambda>v. case v of
                        JNumber n \<Rightarrow> Some (Inr (number_text n))
                      | JString s \<Rightarrow> Some (Inr s)
                      | JUndefined \<Rightarrow> Some (Inr ''undefined'')
                      | JObject k \<Rightarrow> Some (Inr ''[object Object]''))\<rparr>"

section \<open>The tools that need credentials\<close>

text \<open>
  \<^verbatim>\<open>process.env\<close> is a map from names to texts. A value tested with \<^verbatim>\<open>!value\<close>
  or \<^verbatim>\<open>if (value)\<close> counts as present when it is set and not the empty string.
\<close>

type_synonym env = "string \<rightharpoonup> string"

fun truthy :: "string option \<Rightarrow> bool" where
  "truthy None = False"
| "truthy (Some s) = (s \<noteq> [])"

text \<open>The marks U+274C and U+2705 of the reply texts, as their UTF-8 bytes.\<close>

definition cross_mark :: string where
  "cross_mark = [CHR 0xE2, CHR 0x9D, CHR 0x8C]"

definition check_mark :: string where
  "check_mark = [CHR 0xE2, CHR 0x9C, CHR 0x85]"

subsection \<open>\<^verbatim>\<open>send_email\<close>\<close>

record send_email_args =
  mail_to :: string
  subject :: string
  mail_message :: string
  cc :: "string option"
  bcc :: "string option"

record mail_options =
  opt_from :: "string option"
  opt_to :: string
  opt_subject :: string
  opt_text :: string
  opt_cc :: "string option"
  opt_bcc :: "string option"

record smtp_auth =
  user :: "string option"
  pass :: "string option"

text \<open>
  \<^verbatim>\<open>transporter.sendMail\<close> belongs to the mail library: a parameter that, for the
  credentials the transporter was created with and the options of one mail, delivers
  or throws.
\<close>

type_synonym mailer = "smtp_auth \<Rightarrow> mail_options \<Rightarrow> js_error + unit"

definition transporter :: "env \<Rightarrow> smtp_auth" where
  "transporter e = \<lparr>user = e ''EMAIL_USER'', pass = e ''EMAIL_PASS''\<rparr>"

text \<open>
  \<^verbatim>\<open>
  const mailOptions = { from: process.env.EMAIL_USER, to, subject, text: message };
  if (cc) mailOptions.cc = cc;
  if (bcc) mailOptions.bcc = bcc;
  \<close>
\<close>

definition mailOptions :: "env \<Rightarrow> send_email_args \<Rightarrow> mail_options" where
  "mailOptions e a =
     (let opts =
            \<lparr>opt_from = e ''EMAIL_USER'', opt_to = mail_to a, opt_subject = subject a,
             opt_text = mail_message a, opt_cc = None, opt_bcc = None\<rparr>;
          opts = (if truthy (cc a) then opts\<lparr>opt_cc := cc a\<rparr> else opts);
          opts = (if truthy (bcc a) then opts\<lparr>opt_bcc := bcc a\<rparr> else opts)
      in opts)"

text \<open>
  \<^verbatim>\<open>
  try {
    ...
    await transporter.sendMail(mailOptions);
    return `<U+2705> Email successfully sent to ${to}${cc ? ` (CC: ${cc})` : ""}${bcc ? ` (BCC: ${bcc})` : ""}`;
  } catch (error: any) {
    return `<U+274C> Failed to send email: ${error.message}`;
  }
  \<close>
\<close>

definition emailToolkit :: "mailer \<Rightarrow> env \<Rightarrow> send_email_args \<Rightarrow> js_error + string" where
  "emailToolkit sendMail e a =
     (case sendMail (transporter e) (mailOptions e a) of
        Inl err \<Rightarrow> Inr (cross_mark @ '' Failed to send email: '' @ error_message err)
      | Inr u \<Rightarrow>
          Inr (check_mark @ '' Email successfully sent to '' @ mail_to a @
               (case cc a of
                  Some c \<Rightarrow> if c \<noteq> [] then '' (CC: '' @ c @ '')'' else []
                | None \<Rightarrow> []) @
               (case bcc a of
                  Some b \<Rightarrow> if b \<noteq> [] then '' (BCC: '' @ b @ '')'' else []
                | None \<Rightarrow> [])))"

text \<open>
  What the mail library is relied on for: with no user configured it rejects every
  mail with an error that carries a message.
\<close>

definition rejects_missing_user :: "mailer \<Rightarrow> bool" where
  "rejects_missing_user sendMail \<longleftrightarrow>
     (\<forall>au opts. user au = None \<longrightarrow>
        (\<exists>err. sendMail au opts = Inl err \<and> error_message err \<noteq> []))"

text \<open>A mailer and a mail to run the model on.\<close>

definition strict_mailer :: mailer where
  "strict_mailer =
     (\<lambda>au opts. if user au = None \<or> pass au = None
                 then Inl (Error ''Missing credentials for PLAIN'')
                 else Inr ())"

definition sample_mail :: send_email_args where
  "sample_mail =
     \<lparr>mail_to = ''ann@example.org'', subject = ''Hello'', mail_message = ''Hi Ann'',
      cc = None, bcc = None\<rparr>"

subsection \<open>\<^verbatim>\<open>post_to_linkedin\<close>\<close>

datatype visibility = PUBLIC | CONNECTIONS

record ugc_post =
  authorization :: string
  author :: string
  shareCommentary :: string
  memberNetworkVisibility :: visibility

text \<open>
  \<^verbatim>\<open>axios.post\<close> is a parameter: it returns the identifier of the new post, or fails
  with a response (its status, and its data as JSON text) or without one (a message).
\<close>

datatype axios_error = WithResponse nat string | WithoutResponse string

type_synonym axios = "string \<Rightarrow> ugc_post \<Rightarrow> axios_error + string"

definition postToLinkedIn :: "axios \<Rightarrow> env \<Rightarrow> string \<Rightarrow> visibility \<Rightarrow> js_error + string" where
  "postToLinkedIn post e txt vis =
     (case (e ''LINKEDIN_ACCESS_TOKEN'', e ''LINKEDIN_PERSON_ID'') of
        (accessToken, personId) \<Rightarrow>
          if \<not> truthy accessToken then
            Inl (Error ''LINKEDIN_ACCESS_TOKEN environment variable is not set'')
          else if \<not> truthy personId then
            Inl (Error ''LINKEDIN_PERSON_ID environment variable is not set'')
          else
            (case post ''https://api.linkedin.com/v2/ugcPosts''
                    \<lparr>authorization = ''Bearer '' @ the accessToken,
                     author = ''urn:li:person:'' @ the personId,
                     shareCommentary = txt,
                     memberNetworkVisibility = vis\<rparr> of
               Inr postId \<Rightarrow>
                 Inr (check_mark @ '' LinkedIn post published successfully! Post ID: '' @ postId @
                      [CHR 0x0A] @ ''View it at: https://www.linkedin.com/feed/update/'' @ postId)
             | Inl (WithResponse status json) \<Rightarrow>
                 Inl (Error (''LinkedIn API error: '' @ nat_text status @ '' - '' @ json))
             | Inl (WithoutResponse m) \<Rightarrow>
                 Inl (Error (''Failed to post to LinkedIn: '' @ m))))"

definition postToLinkedInTool :: "axios \<Rightarrow> env \<Rightarrow> string \<Rightarrow> visibility option \<Rightarrow> js_error + string" where
  "postToLinkedInTool post e txt vis =
     (case postToLinkedIn post e txt (case vis of None \<Rightarrow> PUBLIC | Some v \<Rightarrow> v) of
        Inr result \<Rightarrow> Inr result
      | Inl err \<Rightarrow> Inr (cross_mark @ '' Failed to post to LinkedIn: '' @ error_message err))"

text \<open>A posting service to run the model on.\<close>

definition accepting_axios :: axios where
  "accepting_axios = (\<lambda>url p. Inr ''urn:li:share:1'')"

section \<open>Document indexing and search\<close>

text \<open>
  The file system, the text splitter and the vector store are outside the repository:
  they are parameters. \<open>createDocuments size overlap texts\<close> is the splitter built
  with that chunk size and overlap; \<open>fromDocuments docs collection url\<close> stores the
  documents and returns the store; \<open>similaritySearch store query k\<close> asks the store for
  the \<open>k\<close> documents nearest to the query. The state is the module variable
  \<^verbatim>\<open>vectorStore\<close> (undefined until the first load succeeds) and the trace of the
  calls made to these services.
\<close>

record document =
  pageContent :: string

record 'vs rag_services =
  readFileSync :: "string \<Rightarrow> js_error + string"
  createDocuments :: "nat \<Rightarrow> nat \<Rightarrow> string list \<Rightarrow> js_error + document list"
  fromDocuments :: "document list \<Rightarrow> string \<Rightarrow> string \<Rightarrow> js_error + 'vs"
  similaritySearch :: "'vs \<Rightarrow> string \<Rightarrow> nat \<Rightarrow> js_error + document list"

datatype 'vs rag_call =
  ReadFile string
| CreateDocuments nat nat "string list"
| FromDocuments "document list" string string
| SimilaritySearch 'vs string nat

record 'vs rag_state =
  vectorStore :: "'vs option"
  calls :: "'vs rag_call list"

definition initial_rag :: "'vs rag_state" where
  "initial_rag = \<lparr>vectorStore = None, calls = []\<rparr>"

definition loadDocument :: "'vs rag_services \<Rightarrow> string \<Rightarrow> 'vs rag_state \<Rightarrow> (js_error + unit) \<times> 'vs rag_state" where
  "loadDocument sv path st =
     (let st1 = st\<lparr>calls := calls st @ [ReadFile path]\<rparr>
      in case readFileSync sv path of
           Inl e \<Rightarrow> (Inl e, st1)
         | Inr txt \<Rightarrow>
             (let st2 = st1\<lparr>calls := calls st1 @ [CreateDocuments 500 100 [txt]]\<rparr>
              in case createDocuments sv 500 100 [txt] of
                   Inl e \<Rightarrow> (Inl e, st2)
                 | Inr docs \<Rightarrow>
                     (let st3 = st2\<lparr>calls := calls st2 @
                                   [FromDocuments docs ''docs'' ''http://localhost:8000'']\<rparr>
                      in case fromDocuments sv docs ''docs'' ''http://localhost:8000'' of
                           Inl e \<Rightarrow> (Inl e, st3)
                         | Inr vs \<Rightarrow> (Inr (), st3\<lparr>vectorStore := Some vs\<rparr>))))"

text \<open>\<^verbatim>\<open>Array.prototype.join\<close>.\<close>

fun join :: "string \<Rightarrow> string list \<Rightarrow> string" where
  "join sep [] = []"
| "join sep [x] = x"
| "join sep (x # y # ys) = x @ sep @ join sep (y # ys)"

definition undefined_store_message :: string where
  "undefined_store_message =
     ''Cannot read properties of undefined (reading '' @ [CHR 0x27] @ ''similaritySearch'' @
     [CHR 0x27] @ '')''"

text \<open>
  \<^verbatim>\<open>
  const results = await vectorStore.similaritySearch(query, 3);
  return results.map(r => r.pageContent).join("\n\n");
  \<close>
  Reading a property of the undefined variable throws a \<^verbatim>\<open>TypeError\<close>.
\<close>

definition searchDocs :: "'vs rag_services \<Rightarrow> string \<Rightarrow> 'vs rag_state \<Rightarrow> (js_error + string) \<times> 'vs rag_state" where
  "searchDocs sv query st =
     (case vectorStore st of
        None \<Rightarrow> (Inl (TypeError undefined_store_message), st)
      | Some vs \<Rightarrow>
          (let st1 = st\<lparr>calls := calls st @ [SimilaritySearch vs query 3]\<rparr>
           in case similaritySearch sv vs query 3 of
                Inl e \<Rightarrow> (Inl e, st1)
              | Inr results \<Rightarrow>
                  (Inr (join [CHR 0x0A, CHR 0x0A] (map pageContent results)), st1)))"

text \<open>Loads made one after the other.\<close>

fun load_all :: "'vs rag_services \<Rightarrow> string list \<Rightarrow> 'vs rag_state \<Rightarrow> (js_error + unit) list \<times> 'vs rag_state" where
  "load_all sv [] st = ([], st)"
| "load_all sv (p # ps) st =
     (case loadDocument sv p st of
        (r, st1) \<Rightarrow> (case load_all sv ps st1 of (rs, st2) \<Rightarrow> (r # rs, st2)))"

text \<open>Services used to run the model on concrete inputs: a store is the list it holds.\<close>

definition list_services :: "(document list) rag_services" where
  "list_services =
     \<lparr>readFileSync = (\<lambda>p. if p = ''notes.txt'' then Inr ''alpha beta gamma delta''
                           else Inl (Error ''ENOENT: no such file or directory'')),
      createDocuments = (\<lambda>size overlap texts.
                           Inr (map (\<lambda>w. \<lparr>pageContent = w\<rparr>)
                                  [''alpha'', ''beta'', ''gamma'', ''delta''])),
      fromDocuments = (\<lambda>docs collection url. Inr docs),
      similaritySearch = (\<lambda>vs q k. Inr (take k vs))\<rparr>"

section \<open>The history is an append-only log\<close>

lemma runAgent_split:
  "runAgent ep t s =
     (case runAgent_start t s of ((n, req), s1) \<Rightarrow> runAgent_resume (ep n req) s1)"
  by (simp add: runAgent_def runAgent_start_def runAgent_resume_def Let_def split: sum.splits)

lemma runAgent_history:
  "runAgent ep t s = (r, s') \<Longrightarrow> history s' = history s @ turns [t] [r]"
  by (auto simp: runAgent_def Let_def split: sum.splits)

lemma step_history:
  "\<exists>ms. history (agent_of (step ep p ev)) = history (agent_of p) @ ms"
proof (cases ev)
  case (Call t)
  then show ?thesis
    by (simp add: runAgent_start_def Let_def)
next
  case (Answer i)
  then show ?thesis
    by (cases "awaiting p ! i")
      (auto simp: runAgent_resume_def Let_def split: sum.splits)
qed

lemma run_events_prefix:
  "prefix (history (agent_of p)) (history (agent_of (run_events ep evs p)))"
proof (induction evs arbitrary: p)
  case Nil
  show ?case by (simp add: run_events_def)
next
  case (Cons ev evs)
  from step_history [of ep p ev]
  have "prefix (history (agent_of p)) (history (agent_of (step ep p ev)))"
    by (auto simp: prefix_def)
  also from Cons.IH [of "step ep p ev"]
  have "prefix (history (agent_of (step ep p ev)))
          (history (agent_of (run_events ep (ev # evs) p)))"
    by (simp add: run_events_def)
  finally show ?case .
qed

lemma human_texts_append: "human_texts (xs @ ys) = human_texts xs @ human_texts ys"
  by (induction xs rule: human_texts.induct) simp_all

lemma assistant_contents_append:
  "assistant_contents (xs @ ys) = assistant_contents xs @ assistant_contents ys"
  by (induction xs rule: assistant_contents.induct) simp_all

lemma completed_append: "completed (xs @ ys) = completed xs @ completed ys"
  by (induction xs rule: completed.induct) simp_all

lemma step_turns:
  "human_texts (history (agent_of (step ep p ev))) =
     human_texts (history (agent_of p)) @ calls_of [ev] \<and>
   (\<exists>rs. returned (step ep p ev) = returned p @ rs \<and>
         assistant_contents (history (agent_of (step ep p ev))) =
           assistant_contents (history (agent_of p)) @ completed rs)"
proof (cases ev)
  case (Call t)
  then show ?thesis
    by (simp add: runAgent_start_def Let_def human_texts_append assistant_contents_append)
next
  case (Answer i)
  then show ?thesis
    by (cases "awaiting p ! i")
      (auto simp: runAgent_resume_def Let_def human_texts_append assistant_contents_append
        split: sum.splits)
qed

lemma calls_of_Cons: "calls_of (ev # evs) = calls_of [ev] @ calls_of evs"
  by (cases ev) simp_all

lemma run_events_turns:
  "human_texts (history (agent_of (run_events ep evs p))) =
     human_texts (history (agent_of p)) @ calls_of evs \<and>
   (\<exists>rs. returned (run_events ep evs p) = returned p @ rs \<and>
         assistant_contents (history (agent_of (run_events ep evs p))) =
           assistant_contents (history (agent_of p)) @ completed rs)"
proof (induction evs arbitrary: p)
  case Nil
  show ?case by (simp add: run_events_def)
next
  case (Cons ev evs)
  let ?q = "step ep p ev"
  have run: "run_events ep (ev # evs) p = run_events ep evs ?q"
    by (simp add: run_events_def)
  from step_turns [of ep p ev] obtain rs1
    where h1: "human_texts (history (agent_of ?q)) =
                 human_texts (history (agent_of p)) @ calls_of [ev]"
      and r1: "returned ?q = returned p @ rs1"
      and a1: "assistant_contents (history (agent_of ?q)) =
                 assistant_contents (history (agent_of p)) @ completed rs1"
    by blast
  from Cons.IH [of ?q] obtain rs2
    where h2: "human_texts (history (agent_of (run_events ep evs ?q))) =
                 human_texts (history (agent_of ?q)) @ calls_of evs"
      and r2: "returned (run_events ep evs ?q) = returned ?q @ rs2"
      and a2: "assistant_contents (history (agent_of (run_events ep evs ?q))) =
                 assistant_contents (history (agent_of ?q)) @ completed rs2"
    by blast
  have "human_texts (history (agent_of (run_events ep (ev # evs) p))) =
          human_texts (history (agent_of p)) @ calls_of (ev # evs)"
    using run h1 h2 calls_of_Cons [of ev evs] by simp
  moreover have "returned (run_events ep (ev # evs) p) = returned p @ (rs1 @ rs2)"
    using run r1 r2 by simp
  moreover have "assistant_contents (history (agent_of (run_events ep (ev # evs) p))) =
          assistant_contents (history (agent_of p)) @ completed (rs1 @ rs2)"
    using run a1 a2 by (simp add: completed_append)
  ultimately show ?case
    by blast
qed

lemma serial_call:
  assumes "awaiting p = []"
  shows "agent_of (step ep (step ep p (Call t)) (Answer 0)) = snd (runAgent ep t (agent_of p))"
    and "returned (step ep (step ep p (Call t)) (Answer 0)) =
           returned p @ [fst (runAgent ep t (agent_of p))]"
    and "awaiting (step ep (step ep p (Call t)) (Answer 0)) = []"
  using assms
  by (simp_all add: runAgent_split runAgent_start_def Let_def split: prod.splits)

lemma serial_run:
  "awaiting p = [] \<Longrightarrow>
     \<exists>rs. returned (run_events ep (serial ts) p) = returned p @ rs \<and>
          length rs = length ts \<and>
          history (agent_of (run_events ep (serial ts) p)) =
            history (agent_of p) @ turns ts rs"
proof (induction ts arbitrary: p)
  case Nil
  show ?case by (simp add: run_events_def)
next
  case (Cons t ts)
  let ?q = "step ep (step ep p (Call t)) (Answer 0)"
  let ?r = "fst (runAgent ep t (agent_of p))"
  have run: "run_events ep (serial (t # ts)) p = run_events ep (serial ts) ?q"
    by (simp add: run_events_def)
  note q = serial_call [OF Cons.prems, of ep t]
  from Cons.IH [OF q(3)] obtain rs
    where r: "returned (run_events ep (serial ts) ?q) = returned ?q @ rs"
      and l: "length rs = length ts"
      and h: "history (agent_of (run_events ep (serial ts) ?q)) =
                history (agent_of ?q) @ turns ts rs"
    by blast
  have one: "history (agent_of ?q) = history (agent_of p) @ turns [t] [?r]"
    using runAgent_history [of ep t "agent_of p" ?r "snd (runAgent ep t (agent_of p))"] q(1)
    by simp
  have "turns [t] [?r] @ turns ts rs = turns (t # ts) (?r # rs)"
    by (cases ?r) simp_all
  with run r l h one q(2)
  have "returned (run_events ep (serial (t # ts)) p) = returned p @ (?r # rs) \<and>
        length (?r # rs) = length (t # ts) \<and>
        history (agent_of (run_events ep (serial (t # ts)) p)) =
          history (agent_of p) @ turns (t # ts) (?r # rs)"
    by simp
  then show ?case
    by blast
qed

lemma turns_completed:
  "length replies = length ts \<Longrightarrow>
     turns ts (map Inr replies) = concat (map2 (\<lambda>t r. [HumanMessage t, AIMessage r]) ts replies)"
  by (induction ts replies rule: list_induct2') simp_all

text \<open>
  C1, as the code has it. Whatever the order in which calls arrive and responses come
  back, the history only grows at its end: the history before is a prefix of the
  history after, its Human turns are the inputs of the calls in the order of their
  arrival, and its Assistant turns are the contents the completed calls returned, in
  the order in which they completed. For calls that do not overlap and all complete,
  the history is the history before followed, call by call in order, by the Human turn
  with the call's input and the Assistant turn with what the call returned; such a
  call is one \<^verbatim>\<open>runAgent\<close> run without interruption, and a first one on the
  empty history leaves exactly its two turns. Nothing makes calls wait for one
  another, so the turns of calls that overlap interleave.
\<close>

theorem history_is_append_only_log:
  "prefix (history (agent_of p)) (history (agent_of (run_events ep evs p))) \<and>
   human_texts (history (agent_of (run_events ep evs p))) =
     human_texts (history (agent_of p)) @ calls_of evs \<and>
   (\<exists>rs. returned (run_events ep evs p) = returned p @ rs \<and>
         assistant_contents (history (agent_of (run_events ep evs p))) =
           assistant_contents (history (agent_of p)) @ completed rs) \<and>
   (awaiting p = [] \<and>
    returned (run_events ep (serial ts) p) = returned p @ map Inr replies \<longrightarrow>
      length replies = length ts \<and>
      history (agent_of (run_events ep (serial ts) p)) =
        history (agent_of p) @
        concat (map2 (\<lambda>t r. [HumanMessage t, AIMessage r]) ts replies)) \<and>
   (awaiting p = [] \<longrightarrow>
      agent_of (run_events ep (serial [t]) p) = snd (runAgent ep t (agent_of p)) \<and>
      returned (run_events ep (serial [t]) p) =
        returned p @ [fst (runAgent ep t (agent_of p))]) \<and>
   (runAgent ep t initial_state = (Inr reply, s') \<longrightarrow>
      history s' = [HumanMessage t, AIMessage reply])"
proof (intro conjI impI)
  show "prefix (history (agent_of p)) (history (agent_of (run_events ep evs p)))"
    by (rule run_events_prefix)
  from run_events_turns [of ep evs p]
  show "human_texts (history (agent_of (run_events ep evs p))) =
      human_texts (history (agent_of p)) @ calls_of evs"
    and "\<exists>rs. returned (run_events ep evs p) = returned p @ rs \<and>
         assistant_contents (history (agent_of (run_events ep evs p))) =
           assistant_contents (history (agent_of p)) @ completed rs"
    by blast+
next
  assume a: "awaiting p = [] \<and>
    returned (run_events ep (serial ts) p) = returned p @ map Inr replies"
  then have idle: "awaiting p = []"
    by simp
  from serial_run [OF idle, of ep ts] obtain rs
    where r: "returned (run_events ep (serial ts) p) = returned p @ rs"
      and l: "length rs = length ts"
      and h: "history (agent_of (run_events ep (serial ts) p)) =
                history (agent_of p) @ turns ts rs"
    by blast
  from a r have rs: "rs = map Inr replies"
    by simp
  with l show len: "length replies = length ts"
    by simp
  from h rs turns_completed [OF len]
  show "history (agent_of (run_events ep (serial ts) p)) =
        history (agent_of p) @
        concat (map2 (\<lambda>t r. [HumanMessage t, AIMessage r]) ts replies)"
    by simp
next
  assume idle: "awaiting p = []"
  from serial_call [OF idle, of ep t]
  show "agent_of (run_events ep (serial [t]) p) = snd (runAgent ep t (agent_of p))"
    and "returned (run_events ep (serial [t]) p) =
        returned p @ [fst (runAgent ep t (agent_of p))]"
    by (simp_all add: run_events_def)
next
  assume "runAgent ep t initial_state = (Inr reply, s')"
  from runAgent_history [OF this] show "history s' = [HumanMessage t, AIMessage reply]"
    by (simp add: initial_state_def)
qed

theorem history_is_append_only_log_witness:
  "history (agent_of (run_events (answering ''ok'') (serial [''hi'', ''what is 25*17?''])
      initial_process)) =
     [HumanMessage ''hi'', AIMessage (Text ''ok''),
      HumanMessage ''what is 25*17?'', AIMessage (Text ''ok'')] \<and>
   agent_of (run_events (answering ''ok'') (serial [''hi'']) initial_process) =
     snd (runAgent (answering ''ok'') ''hi'' initial_state) \<and>
   history (snd (runAgent (answering ''ok'') ''hi'' initial_state)) =
     [HumanMessage ''hi'', AIMessage (Text ''ok'')]"
proof -
  let ?ep = "answering ''ok''"
  let ?ts = "[''hi'', ''what is 25*17?'']"
  have idle: "awaiting initial_process = []"
    and start: "agent_of initial_process = initial_state"
    by (simp_all add: initial_process_def)
  have run: "returned (run_events ?ep (serial ?ts) initial_process) =
      returned initial_process @ map Inr [Text ''ok'', Text ''ok'']"
    by (simp add: run_events_def runAgent_start_def runAgent_resume_def answering_def
        initial_process_def Let_def)
  have one: "runAgent ?ep ''hi'' initial_state =
      (Inr (Text ''ok''), snd (runAgent ?ep ''hi'' initial_state))"
    by (simp add: runAgent_def answering_def Let_def)
  have empty: "history initial_state = []"
    by (simp add: initial_state_def)
  from history_is_append_only_log
         [of initial_process ?ep "[]" ?ts "[Text ''ok'', Text ''ok'']" "''hi''"
             "Text ''ok''" "snd (runAgent ?ep ''hi'' initial_state)"]
       idle run one
  show ?thesis
    by (simp add: start empty)
qed

text \<open>
  Two calls that overlap: the second arrives before the response of the first. Both
  complete, and the history holds the two Human turns before the two Assistant turns.
\<close>

theorem overlapping_calls_interleave_counterexample:
  "returned (run_events (replying [''to a'', ''to b''])
      [Call ''a'', Call ''b'', Answer 0, Answer 0] initial_process) =
     [Inr (Text ''to a''), Inr (Text ''to b'')] \<and>
   history (agent_of (run_events (replying [''to a'', ''to b''])
      [Call ''a'', Call ''b'', Answer 0, Answer 0] initial_process)) =
     [HumanMessage ''a'', HumanMessage ''b'',
      AIMessage (Text ''to a''), AIMessage (Text ''to b'')] \<and>
   history (agent_of (run_events (replying [''to a'', ''to b''])
      [Call ''a'', Call ''b'', Answer 0, Answer 0] initial_process)) \<noteq>
     [HumanMessage ''a'', AIMessage (Text ''to a''),
      HumanMessage ''b'', AIMessage (Text ''to b'')]"
  by (simp add: run_events_def runAgent_start_def runAgent_resume_def replying_def
      initial_process_def initial_state_def invoke_request_def Let_def)


section \<open>What a call sends to the endpoint\<close>

lemma runAgent_asked:
  "asked (snd (runAgent ep t s)) =
     asked s @ [invoke_request model (history s @ [HumanMessage t])]"
  by (simp add: runAgent_def Let_def split: sum.splits)

lemma runAgent_result:
  "fst (runAgent ep t s) =
     map_sum (\<lambda>e. e) content
       (ep (length (asked s)) (invoke_request model (history s @ [HumanMessage t])))"
  by (simp add: runAgent_def Let_def split: sum.splits)

text \<open>
  C2. The request that \<^verbatim>\<open>runAgent\<close> sends carries the whole history, ending with
  the new Human turn, but no tool declaration: it is built from \<^verbatim>\<open>model\<close>, to
  which nothing is bound. The runnable \<^verbatim>\<open>llmWithTools\<close>, which would send the
  three declared tools (calculator, time, echo), is never invoked.
\<close>

theorem runAgent_offers_no_tools:
  "asked (snd (runAgent ep t s)) =
     asked s @ [\<lparr>req_model = ''gemini-2.5-flash'',
                  req_messages = history s @ [HumanMessage t],
                  req_tools = []\<rparr>] \<and>
   req_tools (invoke_request llmWithTools (history s @ [HumanMessage t])) = tools \<and>
   map name tools = [''calculator'', ''time'', ''echo'']"
  by (simp add: runAgent_asked invoke_request_def model_def llmWithTools_def bindTools_def
      tools_def calculator_decl_def timeTool_def echoTool_def)

text \<open>
  C3, as the code has it. A call asks the endpoint exactly once and executes no tool:
  it returns the content of the one response as it came, also when that response
  requests tool calls (its content is then a list of function-call blocks, not a
  text), and it fails only with the error of that one request. There is no loop, no
  bound on round-trips and no error for exceeding one.
\<close>

theorem runAgent_asks_once:
  "length (asked (snd (runAgent ep t s))) = Suc (length (asked s)) \<and>
   fst (runAgent ep t s) =
     map_sum (\<lambda>e. e) content
       (ep (length (asked s)) (invoke_request model (history s @ [HumanMessage t])))"
  by (simp add: runAgent_asked runAgent_result)

text \<open>
  With an endpoint that always requests a tool call, the first call returns the
  content of the first response, its function-call blocks, after one request: it does
  not fail, it does not make five round-trips, and what it returns is not a text.
\<close>

theorem runAgent_iteration_bound_counterexample:
  "fst (runAgent always_tool_call ''What is 25*17?'' initial_state) =
     Inr (Blocks [FunctionCallBlock \<lparr>call_name = ''calculator'', call_args = ''25*17''\<rparr>]) \<and>
   \<not> isl (fst (runAgent always_tool_call ''What is 25*17?'' initial_state)) \<and>
   length (asked (snd (runAgent always_tool_call ''What is 25*17?'' initial_state))) = 1 \<and>
   length (asked (snd (runAgent always_tool_call ''What is 25*17?'' initial_state))) \<noteq> 5"
  by (simp add: runAgent_def always_tool_call_def initial_state_def Let_def)

section \<open>The Slack handlers\<close>

lemma app_mention_failure:
  "fst (runAgent ep txt (agent st)) = Inl e \<Longrightarrow>
     fst (app_mention ep say txt st) = Inl e \<and> said (snd (app_mention ep say txt st)) = said st"
  by (cases "runAgent ep txt (agent st)") (auto simp: app_mention_def)

lemma message_event_failure:
  "event_text ev = Some txt \<Longrightarrow> txt \<noteq> [] \<Longrightarrow> fst (runAgent ep txt (agent st)) = Inl e \<Longrightarrow>
     fst (message_event ep say ev st) = Inl e \<and>
     said (snd (message_event ep say ev st)) = said st"
  by (cases "runAgent ep txt (agent st)") (auto simp: message_event_def)

text \<open>
  C6, as the code has it. Neither handler catches: when \<^verbatim>\<open>runAgent\<close> fails, the
  handler fails with the same error, which leaves the handler for the framework, and
  no reply is sent.
\<close>

theorem handlers_propagate_agent_error:
  "(fst (runAgent ep txt (agent st)) = Inl e \<longrightarrow>
      fst (app_mention ep say txt st) = Inl e \<and>
      said (snd (app_mention ep say txt st)) = said st) \<and>
   (event_text ev = Some txt \<and> txt \<noteq> [] \<and> fst (runAgent ep txt (agent st)) = Inl e \<longrightarrow>
      fst (message_event ep say ev st) = Inl e \<and>
      said (snd (message_event ep say ev st)) = said st)"
  using app_mention_failure message_event_failure by blast

theorem handlers_propagate_agent_error_witness:
  "fst (app_mention failing_endpoint (\<lambda>r. Inr ()) ''hello'' initial_bot) =
     Inl (Error ''fetch failed'') \<and>
   said (snd (app_mention failing_endpoint (\<lambda>r. Inr ()) ''hello'' initial_bot)) = [] \<and>
   fst (message_event failing_endpoint (\<lambda>r. Inr ()) \<lparr>event_text = Some ''hello''\<rparr> initial_bot) =
     Inl (Error ''fetch failed'') \<and>
   said (snd (message_event failing_endpoint (\<lambda>r. Inr ()) \<lparr>event_text = Some ''hello''\<rparr>
     initial_bot)) = []"
proof -
  have fails: "fst (runAgent failing_endpoint ''hello'' (agent initial_bot)) =
      Inl (Error ''fetch failed'')"
    by (simp add: runAgent_def failing_endpoint_def Let_def)
  from handlers_propagate_agent_error
    [of failing_endpoint "''hello''" initial_bot "Error ''fetch failed''" "\<lambda>r. Inr ()"
        "\<lparr>event_text = Some ''hello''\<rparr>"]
    fails
  show ?thesis
    by (simp add: initial_bot_def)
qed

text \<open>
  An \<^verbatim>\<open>app_mention\<close> event whose request to the endpoint fails: the handler ends
  with that error and nothing is said on the channel.
\<close>

theorem adapter_catches_counterexample:
  "fst (app_mention failing_endpoint (\<lambda>r. Inr ()) ''hello'' initial_bot) =
     Inl (Error ''fetch failed'') \<and>
   said (snd (app_mention failing_endpoint (\<lambda>r. Inr ()) ''hello'' initial_bot)) = []"
  by (simp add: app_mention_def runAgent_def failing_endpoint_def initial_bot_def Let_def)

text \<open>
  C9. A \<^verbatim>\<open>message\<close> event whose text is absent or empty leaves the whole state as
  it was: \<^verbatim>\<open>runAgent\<close> is not called (the history and the requests sent are
  unchanged), nothing is said, and the handler returns normally.
\<close>

theorem message_without_text_is_ignored:
  "event_text ev = None \<or> event_text ev = Some [] \<Longrightarrow>
     message_event ep say ev st = (Inr (), st)"
  by (auto simp: message_event_def)

theorem message_without_text_is_ignored_witness:
  "message_event (answering ''ok'') (\<lambda>r. Inr ()) \<lparr>event_text = None\<rparr> initial_bot =
     (Inr (), initial_bot) \<and>
   message_event (answering ''ok'') (\<lambda>r. Inr ()) \<lparr>event_text = Some []\<rparr> initial_bot =
     (Inr (), initial_bot)"
  using message_without_text_is_ignored
          [of "\<lparr>event_text = None\<rparr>" "answering ''ok''" "\<lambda>r. Inr ()" initial_bot]
        message_without_text_is_ignored
          [of "\<lparr>event_text = Some []\<rparr>" "answering ''ok''" "\<lambda>r. Inr ()" initial_bot]
  by simp


section \<open>The calculator\<close>

lemmas ref_eval_unfold =
  ref_eval_def is_digit_def is_letter_def is_operator_def nat_of_digits_def safe_def

lemma ref_eval_product: "ref_eval ''25*17'' = Value (Fin 425)"
  by (simp add: ref_eval_unfold)

lemma ref_eval_division_by_zero: "ref_eval ''10/0'' = Value PosInfinity"
  by (simp add: ref_eval_unfold)

lemma ref_eval_dangling_operator: "ref_eval ''2+'' = SyntaxErr"
  by (simp add: ref_eval_unfold)

lemma ref_eval_Infinity: "ref_eval ''Infinity'' = Value PosInfinity"
  by (simp add: ref_eval_unfold)

lemma ref_eval_endless_loop: "ref_eval ''while(true){}'' = Diverges"
  by (simp add: ref_eval_def)

lemma nat_text_425: "nat_text 425 = ''425''"
  by (simp add: nat_text.simps)

lemma conforms_at:
  assumes "conforms h"
  shows "case ref_eval s of
           Value n \<Rightarrow> eval h s = Some (Inr (JNumber n))
         | SyntaxErr \<Rightarrow> (\<exists>m. eval h s = Some (Inl (SyntaxError m)))
         | Diverges \<Rightarrow> eval h s = None
         | Unmodelled \<Rightarrow> True"
  using assms unfolding conforms_def by blast

lemma conforms_value:
  "conforms h \<Longrightarrow> ref_eval s = Value n \<Longrightarrow> eval h s = Some (Inr (JNumber n))"
  using conforms_at [of h s] by simp

lemma conforms_syntax_error:
  "conforms h \<Longrightarrow> ref_eval s = SyntaxErr \<Longrightarrow> \<exists>m. eval h s = Some (Inl (SyntaxError m))"
  using conforms_at [of h s] by simp

lemma conforms_diverges:
  "conforms h \<Longrightarrow> ref_eval s = Diverges \<Longrightarrow> eval h s = None"
  using conforms_at [of h s] by simp

lemma conforms_text:
  "conforms h \<Longrightarrow> representable n \<Longrightarrow> toString h (JNumber n) = Some (Inr (number_text n))"
  by (simp add: conforms_def)

lemma conforms_reference_host: "conforms reference_host"
  by (simp add: conforms_def reference_host_def split: ref_result.splits)

lemma calculator_never_throws: "calculator h e \<noteq> Some (Inl x)"
  by (simp add: calculator_def split: option.splits sum.splits)

lemma calculator_no_return:
  "(calculator h e = None) =
     (case eval h e of
        None \<Rightarrow> True
      | Some (Inl x) \<Rightarrow> False
      | Some (Inr v) \<Rightarrow> toString h v = None)"
  by (simp add: calculator_def split: option.splits sum.splits)

lemma calculator_returns:
  assumes "eval h e \<noteq> None" and "\<forall>v. toString h v \<noteq> None"
  shows "\<exists>t. calculator h e = Some (Inr t)"
proof -
  from assms have "calculator h e \<noteq> None"
    by (auto simp: calculator_no_return split: option.splits sum.splits)
  then obtain r where r: "calculator h e = Some r"
    by blast
  with calculator_never_throws [of h e] obtain t where "r = Inr t"
    by (cases r) auto
  with r show ?thesis
    by simp
qed

lemma calculator_number:
  "conforms h \<Longrightarrow> ref_eval s = Value n \<Longrightarrow> representable n \<Longrightarrow>
     calculator h s = Some (Inr (''Result: '' @ number_text n))"
  by (simp add: calculator_def conforms_value conforms_text)

lemma calculator_syntax_error:
  assumes "conforms h" and "ref_eval s = SyntaxErr"
  shows "calculator h s = Some (Inr ''Invalid math expression'')"
proof -
  from conforms_syntax_error [OF assms] obtain m where "eval h s = Some (Inl (SyntaxError m))" ..
  then show ?thesis
    by (simp add: calculator_def)
qed

lemma calculator_endless_loop:
  "conforms h \<Longrightarrow> calculator h ''while(true){}'' = None"
  by (simp add: calculator_def conforms_diverges ref_eval_endless_loop)

text \<open>
  C4, as the code has it. On every host that conforms to the arithmetic of the
  language, the calculator answers \<open>Result: 425\<close> for \<open>25*17\<close>,
  \<open>Result: Infinity\<close> for \<open>10/0\<close> and \<open>Invalid math expression\<close> for \<open>2+\<close>.
  On every host and every input it throws nothing: what the evaluation or the
  conversion to text throws is caught inside the tool. It returns a text exactly when
  the evaluation and the conversion hand control back; on an input whose evaluation
  never does, such as \<open>while(true){}\<close>, the tool returns nothing.
\<close>

theorem calculator_examples:
  assumes "conforms h"
  shows "calculator h ''25*17'' = Some (Inr ''Result: 425'') \<and>
         calculator h ''10/0'' = Some (Inr ''Result: Infinity'') \<and>
         calculator h ''2+'' = Some (Inr ''Invalid math expression'') \<and>
         calculator h ''while(true){}'' = None \<and>
         (\<forall>h' e x. calculator h' e \<noteq> Some (Inl x)) \<and>
         (\<forall>h' e. (calculator h' e = None) =
                   (case eval h' e of
                      None \<Rightarrow> True
                    | Some (Inl x) \<Rightarrow> False
                    | Some (Inr v) \<Rightarrow> toString h' v = None)) \<and>
         (\<forall>h' e. eval h' e \<noteq> None \<and> (\<forall>v. toString h' v \<noteq> None) \<longrightarrow>
                   (\<exists>t. calculator h' e = Some (Inr t)))"
proof (intro conjI allI impI)
  from calculator_number [OF assms ref_eval_product]
  show "calculator h ''25*17'' = Some (Inr ''Result: 425'')"
    by (simp add: nat_text_425)
  from calculator_number [OF assms ref_eval_division_by_zero]
  show "calculator h ''10/0'' = Some (Inr ''Result: Infinity'')"
    by simp
  from calculator_syntax_error [OF assms ref_eval_dangling_operator]
  show "calculator h ''2+'' = Some (Inr ''Invalid math expression'')" .
  from calculator_endless_loop [OF assms]
  show "calculator h ''while(true){}'' = None" .
next
  fix h' :: js_host and e x
  show "calculator h' e \<noteq> Some (Inl x)"
    by (rule calculator_never_throws)
next
  fix h' :: js_host and e
  show "(calculator h' e = None) =
          (case eval h' e of
             None \<Rightarrow> True
           | Some (Inl x) \<Rightarrow> False
           | Some (Inr v) \<Rightarrow> toString h' v = None)"
    by (rule calculator_no_return)
next
  fix h' :: js_host and e
  assume "eval h' e \<noteq> None \<and> (\<forall>v. toString h' v \<noteq> None)"
  then show "\<exists>t. calculator h' e = Some (Inr t)"
    using calculator_returns by blast
qed

theorem calculator_examples_witness:
  "calculator reference_host ''25*17'' = Some (Inr ''Result: 425'') \<and>
   calculator reference_host ''10/0'' = Some (Inr ''Result: Infinity'') \<and>
   calculator reference_host ''2+'' = Some (Inr ''Invalid math expression'') \<and>
   calculator reference_host ''while(true){}'' = None \<and>
   (\<exists>t. calculator reference_host ''1+x'' = Some (Inr t))"
proof -
  have hands_back: "eval reference_host ''1+x'' \<noteq> None \<and> (\<forall>v. toString reference_host v \<noteq> None)"
    by (simp add: reference_host_def ref_eval_unfold split: js_value.splits)
  from calculator_examples [OF conforms_reference_host] hands_back
  show ?thesis
    by blast
qed

text \<open>
  The input \<open>while(true){}\<close> is a string like any other; its evaluation never
  ends, so the tool returns no text for it.
\<close>

theorem calculator_returns_text_counterexample:
  "calculator reference_host ''while(true){}'' = None"
  by (simp add: calculator_def reference_host_def ref_eval_endless_loop)

text \<open>
  C5, as the code has it. The calculator checks no grammar: the input goes unchanged
  to the host evaluator. The answer is \<open>Invalid math expression\<close> exactly when the
  evaluation, or the conversion of its value to text, throws; when both return, the
  answer is \<open>Result: \<close> followed by the text of the value. An input that holds an
  identifier and evaluates, such as \<open>Infinity\<close> on every conforming host, is
  executed and answered with its value.
\<close>

theorem calculator_rejects_only_what_throws:
  "(calculator h e = Some (Inr ''Invalid math expression'')) =
     (case eval h e of
        None \<Rightarrow> False
      | Some (Inl x) \<Rightarrow> True
      | Some (Inr v) \<Rightarrow> (case toString h v of Some (Inl x) \<Rightarrow> True | _ \<Rightarrow> False)) \<and>
   (eval h e = Some (Inr v) \<and> toString h v = Some (Inr s) \<longrightarrow>
      calculator h e = Some (Inr (''Result: '' @ s))) \<and>
   (conforms h \<longrightarrow> calculator h ''Infinity'' = Some (Inr ''Result: Infinity''))"
proof (intro conjI impI)
  show "(calculator h e = Some (Inr ''Invalid math expression'')) =
     (case eval h e of
        None \<Rightarrow> False
      | Some (Inl x) \<Rightarrow> True
      | Some (Inr v) \<Rightarrow> (case toString h v of Some (Inl x) \<Rightarrow> True | _ \<Rightarrow> False))"
    by (auto simp: calculator_def split: option.splits sum.splits)
next
  assume "eval h e = Some (Inr v) \<and> toString h v = Some (Inr s)"
  then show "calculator h e = Some (Inr (''Result: '' @ s))"
    by (simp add: calculator_def)
next
  assume "conforms h"
  from calculator_number [OF this ref_eval_Infinity]
  show "calculator h ''Infinity'' = Some (Inr ''Result: Infinity'')"
    by simp
qed

theorem calculator_rejects_only_what_throws_witness:
  "conforms reference_host \<and>
   eval reference_host ''Infinity'' = Some (Inr (JNumber PosInfinity)) \<and>
   toString reference_host (JNumber PosInfinity) = Some (Inr ''Infinity'') \<and>
   calculator reference_host ''Infinity'' = Some (Inr ''Result: Infinity'')"
proof -
  have ev: "eval reference_host ''Infinity'' = Some (Inr (JNumber PosInfinity))"
    by (simp add: reference_host_def ref_eval_Infinity)
  have tx: "toString reference_host (JNumber PosInfinity) = Some (Inr ''Infinity'')"
    by (simp add: reference_host_def)
  from calculator_rejects_only_what_throws
         [of reference_host "''Infinity''" "JNumber PosInfinity" "''Infinity''"]
       conforms_reference_host ev tx
  show ?thesis
    by simp
qed

text \<open>
  The input \<open>Infinity\<close> holds an identifier and nothing of the arithmetic grammar;
  it is evaluated and answered, not rejected.
\<close>

theorem calculator_grammar_counterexample:
  "list_ex is_letter ''Infinity'' \<and>
   calculator reference_host ''Infinity'' = Some (Inr ''Result: Infinity'') \<and>
   calculator reference_host ''Infinity'' \<noteq> Some (Inr ''Invalid math expression'')"
  by (simp add: calculator_def reference_host_def ref_eval_Infinity is_letter_def)

section \<open>The tools that need credentials\<close>

lemma emailToolkit_returns: "\<exists>t. emailToolkit sendMail e a = Inr t"
  by (simp add: emailToolkit_def split: sum.splits)

lemma emailToolkit_rejected:
  "sendMail (transporter e) (mailOptions e a) = Inl err \<Longrightarrow>
     emailToolkit sendMail e a =
       Inr (cross_mark @ '' Failed to send email: '' @ error_message err)"
  by (simp add: emailToolkit_def)

lemma emailToolkit_missing_user:
  assumes lib: "rejects_missing_user sendMail" and unset: "e ''EMAIL_USER'' = None"
  shows "\<exists>err. sendMail (transporter e) (mailOptions e a) = Inl err \<and>
               error_message err \<noteq> [] \<and>
               emailToolkit sendMail e a =
                 Inr (cross_mark @ '' Failed to send email: '' @ error_message err)"
proof -
  from unset have "user (transporter e) = None"
    by (simp add: transporter_def)
  with lib obtain err
    where "sendMail (transporter e) (mailOptions e a) = Inl err" and "error_message err \<noteq> []"
    unfolding rejects_missing_user_def by blast
  then show ?thesis
    using emailToolkit_rejected by blast
qed

lemma postToLinkedIn_no_token:
  "\<not> truthy (e ''LINKEDIN_ACCESS_TOKEN'') \<Longrightarrow>
     postToLinkedIn post e txt vis =
       Inl (Error ''LINKEDIN_ACCESS_TOKEN environment variable is not set'')"
  by (simp add: postToLinkedIn_def)

lemma postToLinkedIn_no_person:
  "truthy (e ''LINKEDIN_ACCESS_TOKEN'') \<Longrightarrow> \<not> truthy (e ''LINKEDIN_PERSON_ID'') \<Longrightarrow>
     postToLinkedIn post e txt vis =
       Inl (Error ''LINKEDIN_PERSON_ID environment variable is not set'')"
  by (simp add: postToLinkedIn_def)

lemma postToLinkedInTool_returns: "\<exists>t. postToLinkedInTool post e txt vis = Inr t"
  by (simp add: postToLinkedInTool_def split: sum.splits)

text \<open>
  C7. Both tools return a text on every invocation; nothing is thrown out of them.
  \<^verbatim>\<open>post_to_linkedin\<close> tests its two variables itself: without the access token,
  and with the token but without the person identifier, its text names the variable
  that is not set. \<^verbatim>\<open>send_email\<close> hands the mail it was asked to send (copies
  only where one is given) to the mail library, under the account taken from the
  environment, and whenever the library
  rejects it the text is the failure notice followed by the message of the library's
  error. When \<^verbatim>\<open>EMAIL_USER\<close> is not set and the library rejects a mail sent without
  a user with an error that carries a message, the text is therefore the notice
  followed by that message, which is not empty.
\<close>

theorem credential_tools_return_error_text:
  "(\<exists>t. emailToolkit sendMail e a = Inr t) \<and>
   (\<exists>t. postToLinkedInTool post e txt vis = Inr t) \<and>
   mailOptions e a =
     \<lparr>opt_from = e ''EMAIL_USER'', opt_to = mail_to a, opt_subject = subject a,
      opt_text = mail_message a,
      opt_cc = (if truthy (cc a) then cc a else None),
      opt_bcc = (if truthy (bcc a) then bcc a else None)\<rparr> \<and>
   (sendMail \<lparr>user = e ''EMAIL_USER'', pass = e ''EMAIL_PASS''\<rparr> (mailOptions e a) = Inl err \<longrightarrow>
      emailToolkit sendMail e a =
        Inr (cross_mark @ '' Failed to send email: '' @ error_message err)) \<and>
   (rejects_missing_user sendMail \<and> e ''EMAIL_USER'' = None \<longrightarrow>
      (\<exists>err. sendMail \<lparr>user = None, pass = e ''EMAIL_PASS''\<rparr> (mailOptions e a) = Inl err \<and>
             error_message err \<noteq> [] \<and>
             emailToolkit sendMail e a =
               Inr (cross_mark @ '' Failed to send email: '' @ error_message err))) \<and>
   (\<not> truthy (e ''LINKEDIN_ACCESS_TOKEN'') \<longrightarrow>
      postToLinkedInTool post e txt vis =
        Inr (cross_mark @ '' Failed to post to LinkedIn: '' @
             ''LINKEDIN_ACCESS_TOKEN environment variable is not set'')) \<and>
   (truthy (e ''LINKEDIN_ACCESS_TOKEN'') \<and> \<not> truthy (e ''LINKEDIN_PERSON_ID'') \<longrightarrow>
      postToLinkedInTool post e txt vis =
        Inr (cross_mark @ '' Failed to post to LinkedIn: '' @
             ''LINKEDIN_PERSON_ID environment variable is not set''))"
proof (intro conjI impI)
  show "\<exists>t. emailToolkit sendMail e a = Inr t"
    by (rule emailToolkit_returns)
  show "\<exists>t. postToLinkedInTool post e txt vis = Inr t"
    by (rule postToLinkedInTool_returns)
  show "mailOptions e a =
     \<lparr>opt_from = e ''EMAIL_USER'', opt_to = mail_to a, opt_subject = subject a,
      opt_text = mail_message a,
      opt_cc = (if truthy (cc a) then cc a else None),
      opt_bcc = (if truthy (bcc a) then bcc a else None)\<rparr>"
    by (simp add: mailOptions_def Let_def)
next
  assume "sendMail \<lparr>user = e ''EMAIL_USER'', pass = e ''EMAIL_PASS''\<rparr> (mailOptions e a) = Inl err"
  then show "emailToolkit sendMail e a =
      Inr (cross_mark @ '' Failed to send email: '' @ error_message err)"
    by (simp add: emailToolkit_def transporter_def)
next
  assume "rejects_missing_user sendMail \<and> e ''EMAIL_USER'' = None"
  then show "\<exists>err. sendMail \<lparr>user = None, pass = e ''EMAIL_PASS''\<rparr> (mailOptions e a) = Inl err \<and>
             error_message err \<noteq> [] \<and>
             emailToolkit sendMail e a =
               Inr (cross_mark @ '' Failed to send email: '' @ error_message err)"
    using emailToolkit_missing_user [of sendMail e a] by (simp add: transporter_def)
next
  assume "\<not> truthy (e ''LINKEDIN_ACCESS_TOKEN'')"
  then have "postToLinkedIn post e txt (case vis of None \<Rightarrow> PUBLIC | Some v \<Rightarrow> v) =
      Inl (Error ''LINKEDIN_ACCESS_TOKEN environment variable is not set'')"
    by (simp add: postToLinkedIn_no_token)
  then show "postToLinkedInTool post e txt vis =
        Inr (cross_mark @ '' Failed to post to LinkedIn: '' @
             ''LINKEDIN_ACCESS_TOKEN environment variable is not set'')"
    by (simp add: postToLinkedInTool_def)
next
  assume "truthy (e ''LINKEDIN_ACCESS_TOKEN'') \<and> \<not> truthy (e ''LINKEDIN_PERSON_ID'')"
  then have "postToLinkedIn post e txt (case vis of None \<Rightarrow> PUBLIC | Some v \<Rightarrow> v) =
      Inl (Error ''LINKEDIN_PERSON_ID environment variable is not set'')"
    by (simp add: postToLinkedIn_no_person)
  then show "postToLinkedInTool post e txt vis =
        Inr (cross_mark @ '' Failed to post to LinkedIn: '' @
             ''LINKEDIN_PERSON_ID environment variable is not set'')"
    by (simp add: postToLinkedInTool_def)
qed

theorem credential_tools_return_error_text_witness:
  "emailToolkit strict_mailer Map.empty sample_mail =
     Inr (cross_mark @ '' Failed to send email: '' @ ''Missing credentials for PLAIN'') \<and>
   postToLinkedInTool accepting_axios Map.empty ''Hello'' None =
     Inr (cross_mark @ '' Failed to post to LinkedIn: '' @
          ''LINKEDIN_ACCESS_TOKEN environment variable is not set'') \<and>
   postToLinkedInTool accepting_axios [''LINKEDIN_ACCESS_TOKEN'' \<mapsto> ''token''] ''Hello'' None =
     Inr (cross_mark @ '' Failed to post to LinkedIn: '' @
          ''LINKEDIN_PERSON_ID environment variable is not set'')"
proof -
  have lib: "rejects_missing_user strict_mailer"
    by (simp add: rejects_missing_user_def strict_mailer_def)
  have rejected: "strict_mailer \<lparr>user = Map.empty ''EMAIL_USER'', pass = Map.empty ''EMAIL_PASS''\<rparr>
      (mailOptions Map.empty sample_mail) = Inl (Error ''Missing credentials for PLAIN'')"
    by (simp add: strict_mailer_def)
  from credential_tools_return_error_text
         [of strict_mailer Map.empty sample_mail accepting_axios "''Hello''" None
             "Error ''Missing credentials for PLAIN''"]
       credential_tools_return_error_text
         [of strict_mailer "[''LINKEDIN_ACCESS_TOKEN'' \<mapsto> ''token'']" sample_mail
             accepting_axios "''Hello''" None "Error ''Missing credentials for PLAIN''"]
       lib rejected
  show ?thesis
    by simp
qed

section \<open>Document indexing and search\<close>






section \<open>Searching before a load has succeeded\<close>

lemma loadDocument_failure_keeps_store:
  "loadDocument sv path st = (Inl e, st') \<Longrightarrow> vectorStore st' = vectorStore st"
  by (auto simp: loadDocument_def Let_def split: sum.splits)

lemma load_all_failures_keep_store:
  "load_all sv ps st = (map Inl errs, st') \<Longrightarrow> vectorStore st' = vectorStore st"
proof (induction ps arbitrary: st errs st')
  case Nil
  then show ?case by simp
next
  case (Cons p ps)
  obtain r st1 where step: "loadDocument sv p st = (r, st1)"
    by (cases "loadDocument sv p st")
  obtain rs st2 where rest: "load_all sv ps st1 = (rs, st2)"
    by (cases "load_all sv ps st1")
  from Cons.prems step rest have eqs: "map Inl errs = r # rs" "st' = st2"
    by simp_all
  then obtain e es where errs: "errs = e # es" "r = Inl e" "rs = map Inl es"
    by (cases errs) auto
  from step errs have "vectorStore st1 = vectorStore st"
    by (simp add: loadDocument_failure_keeps_store)
  moreover from Cons.IH [of st1 es st2] rest errs have "vectorStore st2 = vectorStore st1"
    by simp
  ultimately show ?case
    using eqs by simp
qed

lemma searchDocs_undefined_store:
  "vectorStore st = None \<Longrightarrow> searchDocs sv q st = (Inl (TypeError undefined_store_message), st)"
  by (simp add: searchDocs_def)

text \<open>
  C10. In the initial state, and after any number of loads none of which succeeded,
  the module variable \<^verbatim>\<open>vectorStore\<close> is still undefined, and a search with any
  query throws a \<^verbatim>\<open>TypeError\<close>: it returns no text, in particular not the empty
  one, and asks the store nothing.
\<close>

theorem search_before_load_throws:
  "searchDocs sv q initial_rag = (Inl (TypeError undefined_store_message), initial_rag) \<and>
   (load_all sv ps initial_rag = (map Inl errs, st) \<longrightarrow>
      searchDocs sv q st = (Inl (TypeError undefined_store_message), st) \<and>
      fst (searchDocs sv q st) \<noteq> Inr [])"
proof (intro conjI impI)
  show "searchDocs sv q initial_rag = (Inl (TypeError undefined_store_message), initial_rag)"
    by (simp add: searchDocs_undefined_store initial_rag_def)
next
  assume failed: "load_all sv ps initial_rag = (map Inl errs, st)"
  from load_all_failures_keep_store [OF failed] have "vectorStore st = None"
    by (simp add: initial_rag_def)
  then show "searchDocs sv q st = (Inl (TypeError undefined_store_message), st)"
    by (rule searchDocs_undefined_store)
  then show "fst (searchDocs sv q st) \<noteq> Inr []"
    by simp
qed

theorem search_before_load_throws_witness:
  "fst (searchDocs list_services ''beta''
         (snd (load_all list_services [''missing.txt'', ''other.txt''] initial_rag))) =
     Inl (TypeError undefined_store_message)"
proof -
  let ?ps = "[''missing.txt'', ''other.txt'']"
  let ?st = "snd (load_all list_services ?ps initial_rag)"
  have failed: "load_all list_services ?ps initial_rag =
      (map Inl [Error ''ENOENT: no such file or directory'',
                Error ''ENOENT: no such file or directory''], ?st)"
    by (simp add: loadDocument_def list_services_def Let_def)
  from search_before_load_throws
         [of list_services "''beta''" ?ps
             "[Error ''ENOENT: no such file or directory'',
               Error ''ENOENT: no such file or directory'']" ?st]
       failed
  show ?thesis
    by simp
qed

end
